theory Spec2Isabelle
  imports Complex_Main
begin

section \<open>The Coordinates-Intro notebook\<close>

text \<open>
  The notebook \<^verbatim>\<open>tutorials/notebooks/Coordinates-Intro/Coordinates-Intro.ipynb\<close> is a
  sequence of code cells over one Python namespace. Each cell is embedded as a function
  on the namespace (a record), with the network and the float printer as an explicit
  environment. Python floats are read as exact rationals: every numeric statement below
  is about the real-number value of the expression, not about its IEEE rounding.
\<close>

subsection \<open>Angular units and quantities\<close>

datatype angle_unit = deg | arcmin | arcsec | hourangle

text \<open>
  Modelled from the spec: the unit table of the external units library (the notebook
  only writes \<^verbatim>\<open>u.deg\<close>, \<^verbatim>\<open>u.arcmin\<close>, \<^verbatim>\<open>u.arcsec\<close>, and reads \<^verbatim>\<open>.hour\<close>). The
  spec fixes a 12 arcmin field as 720 arcsec and an hour of right ascension as 15 degrees;
  a degree is 60 arcmin.
\<close>

fun arcsec_per :: "angle_unit \<Rightarrow> rat" where
  "arcsec_per deg = 3600"
| "arcsec_per arcmin = 60"
| "arcsec_per arcsec = 1"
| "arcsec_per hourangle = 54000"

record quantity =
  qvalue :: rat
  qunit :: angle_unit

text \<open>\<^verbatim>\<open>x * u.unit\<close>\<close>

definition times_unit :: "rat \<Rightarrow> angle_unit \<Rightarrow> quantity" where
  "times_unit x u = \<lparr>qvalue = x, qunit = u\<rparr>"

text \<open>\<^verbatim>\<open>q.to(unit)\<close>\<close>

definition to_unit :: "quantity \<Rightarrow> angle_unit \<Rightarrow> quantity" where
  "to_unit q u = \<lparr>qvalue = qvalue q * arcsec_per (qunit q) / arcsec_per u, qunit = u\<rparr>"

subsection \<open>Positions\<close>

datatype frame = ICRS | FK5 | FK4 | Galactic

text \<open>A \<^verbatim>\<open>SkyCoord\<close>: right ascension and declination in degrees, and the frame.\<close>

record position =
  ra :: rat
  dec :: rat
  frame :: frame

datatype error =
  ValueError
  | NameResolveError
  | URLError
  | ContentTooShortError
  | OSError
  | NameError
  | ZeroDivisionError

datatype dec_policy = Reject | Clamp

text \<open>
  Modelled from the spec: the longitude and latitude types of the external coordinates
  library, which \<^verbatim>\<open>SkyCoord(...)\<close> applies to its two angles. The spec gives the range
  of a right ascension, \<open>[0, 360)\<close> degrees, which the library reaches by wrapping the
  angle; a declination outside \<open>[-90, 90]\<close> degrees is "rejected or clamped", a choice
  the spec leaves open and the model takes as the parameter \<open>pol\<close>.
\<close>

definition wrap360 :: "rat \<Rightarrow> rat" where
  "wrap360 x = x - 360 * of_int \<lfloor>x / 360\<rfloor>"

definition check_dec :: "dec_policy \<Rightarrow> rat \<Rightarrow> error + rat" where
  "check_dec pol d =
     (if - 90 \<le> d \<and> d \<le> 90 then Inr d
      else case pol of
             Reject \<Rightarrow> Inl ValueError
           | Clamp \<Rightarrow> Inr (max (- 90) (min 90 d)))"

text \<open>
  Modelled from the spec: \<^verbatim>\<open>SkyCoord(lon, lat, frame=...)\<close> on two quantities. The
  position holds both angles in degrees.
\<close>

definition SkyCoord :: "dec_policy \<Rightarrow> quantity \<Rightarrow> quantity \<Rightarrow> frame \<Rightarrow> error + position" where
  "SkyCoord pol lon lat f =
     (case check_dec pol (qvalue (to_unit lat deg)) of
        Inl err \<Rightarrow> Inl err
      | Inr d \<Rightarrow> Inr \<lparr>ra = wrap360 (qvalue (to_unit lon deg)), dec = d, frame = f\<rparr>)"

definition valid_position :: "position \<Rightarrow> bool" where
  "valid_position p \<longleftrightarrow> 0 \<le> ra p \<and> ra p < 360 \<and> - 90 \<le> dec p \<and> dec p \<le> 90"

subsection \<open>Sexagesimal text\<close>

definition is_digit :: "char \<Rightarrow> bool" where
  "is_digit c \<longleftrightarrow> c \<in> set ''0123456789''"

definition digit_val :: "char \<Rightarrow> nat" where
  "digit_val c = of_char c - 48"

definition nat_of_digits :: "string \<Rightarrow> nat" where
  "nat_of_digits ds = foldl (\<lambda>n c. 10 * n + digit_val c) 0 ds"

text \<open>An unsigned decimal: digits, then optionally a point and more digits.\<close>

definition parse_decimal :: "string \<Rightarrow> rat option" where
  "parse_decimal s =
     (let ip = takeWhile is_digit s; rest = dropWhile is_digit s
      in if ip = [] then None
         else case rest of
                [] \<Rightarrow> Some (of_nat (nat_of_digits ip))
              | c # fp \<Rightarrow>
                  if c = CHR ''.'' \<and> fp \<noteq> [] \<and> list_all is_digit fp
                  then Some (of_nat (nat_of_digits ip)
                             + of_nat (nat_of_digits fp) / 10 ^ length fp)
                  else None)"

definition split_at :: "char \<Rightarrow> string \<Rightarrow> (string \<times> string) option" where
  "split_at c s =
     (case dropWhile (\<lambda>x. x \<noteq> c) s of
        [] \<Rightarrow> None
      | _ # r \<Rightarrow> Some (takeWhile (\<lambda>x. x \<noteq> c) s, r))"

text \<open>
  Modelled from the spec: the sexagesimal reading of a string by the external library,
  for the form the notebook writes: an optional sign, whole hours (\<^verbatim>\<open>h\<close>) or degrees
  (\<^verbatim>\<open>d\<close>), whole minutes (\<^verbatim>\<open>m\<close>) and decimal seconds (\<^verbatim>\<open>s\<close>), as in \<^verbatim>\<open>0h39m15.9s\<close>.
  The value is \<open>whole + minutes / 60 + seconds / 3600\<close> in the unit the letter names.
  Any other text is a \<open>ValueError\<close> here; the library reads more forms than this one.
\<close>

definition parse_sexagesimal :: "string \<Rightarrow> error + quantity" where
  "parse_sexagesimal s0 =
     (let neg = (take 1 s0 = ''-'');
          s = (if take 1 s0 = ''-'' \<or> take 1 s0 = ''+'' then drop 1 s0 else s0);
          lead = takeWhile is_digit s
      in case dropWhile is_digit s of
           [] \<Rightarrow> Inl ValueError
         | uc # r1 \<Rightarrow>
             if lead = [] \<or> (uc \<noteq> CHR ''h'' \<and> uc \<noteq> CHR ''d'') then Inl ValueError
             else
               (case split_at CHR ''m'' r1 of
                  None \<Rightarrow> Inl ValueError
                | Some (ms, r2) \<Rightarrow>
                    (case split_at CHR ''s'' r2 of
                       None \<Rightarrow> Inl ValueError
                     | Some (ss, r3) \<Rightarrow>
                         if r3 \<noteq> [] \<or> ms = [] \<or> \<not> list_all is_digit ms then Inl ValueError
                         else
                           (case parse_decimal ss of
                              None \<Rightarrow> Inl ValueError
                            | Some sec \<Rightarrow>
                                (let v = of_nat (nat_of_digits lead)
                                         + of_nat (nat_of_digits ms) / 60 + sec / 3600
                                 in Inr \<lparr>qvalue = (if neg then - v else v),
                                         qunit = (if uc = CHR ''h'' then hourangle else deg)\<rparr>)))))"

text \<open>\<^verbatim>\<open>SkyCoord('...', '...', frame=...)\<close> on two strings that carry their units.\<close>

definition SkyCoord_str :: "dec_policy \<Rightarrow> string \<Rightarrow> string \<Rightarrow> frame \<Rightarrow> error + position" where
  "SkyCoord_str pol lon_s lat_s f =
     (case parse_sexagesimal lon_s of
        Inl err \<Rightarrow> Inl err
      | Inr lon \<Rightarrow>
          (case parse_sexagesimal lat_s of
             Inl err \<Rightarrow> Inl err
           | Inr lat \<Rightarrow> SkyCoord pol lon lat f))"

subsection \<open>Showing an angle\<close>

text \<open>
  Modelled from the spec: \<^verbatim>\<open>.hour\<close> of the external library is the angle in hours (15
  degrees each), and the sexagesimal fields of an angle are its sign, whole degrees, whole
  minutes and the remaining seconds, here without any rounding.
\<close>

definition hour :: "rat \<Rightarrow> rat" where
  "hour x = qvalue (to_unit (times_unit x deg) hourangle)"

datatype sexagesimal = Sexagesimal bool nat nat rat

definition to_dms :: "rat \<Rightarrow> sexagesimal" where
  "to_dms x =
     (let a = \<bar>x\<bar>;
          d = \<lfloor>a\<rfloor>;
          mf = (a - of_int d) * 60;
          m = \<lfloor>mf\<rfloor>;
          sec = (mf - of_int m) * 60
      in Sexagesimal (x < 0) (nat d) (nat m) sec)"

fun dms_degrees :: "sexagesimal \<Rightarrow> rat" where
  "dms_degrees (Sexagesimal neg d m sec) =
     (if neg then - 1 else 1) * (of_nat d + of_nat m / 60 + sec / 3600)"


subsection \<open>Python values and \<^verbatim>\<open>urllib.parse.urlencode\<close>\<close>

datatype pyval = PyInt int | PyFloat rat | PyStr string

definition digit_char :: "nat \<Rightarrow> char" where
  "digit_char d = ''0123456789'' ! d"

function str_nat :: "nat \<Rightarrow> string" where
  "str_nat n = (if n < 10 then [digit_char n] else str_nat (n div 10) @ [digit_char (n mod 10)])"
  by pat_completeness auto
termination
  by (relation "measure (\<lambda>n. n)") auto

declare str_nat.simps [simp del]

definition str_int :: "int \<Rightarrow> string" where
  "str_int i = (if i < 0 then CHR ''-'' # str_nat (nat (- i)) else str_nat (nat i))"

text \<open>
  \<^verbatim>\<open>str(v)\<close>. The decimal text of a float is the interpreter's own algorithm; it is the
  parameter \<open>fs\<close>.
\<close>

fun py_str :: "(rat \<Rightarrow> string) \<Rightarrow> pyval \<Rightarrow> string" where
  "py_str fs (PyInt i) = str_int i"
| "py_str fs (PyFloat x) = fs x"
| "py_str fs (PyStr s) = s"

text \<open>
  \<^verbatim>\<open>quote_plus\<close> of Python 3.6 (the notebook's kernel): letters, digits and \<^verbatim>\<open>_.-\<close> are
  kept, a space becomes \<^verbatim>\<open>+\<close>, every other byte becomes \<^verbatim>\<open>%XX\<close>.
\<close>

definition always_safe :: "char \<Rightarrow> bool" where
  "always_safe c \<longleftrightarrow>
     c \<in> set ''ABCDEFGHIJKLMNOPQRSTUVWXYZabcdefghijklmnopqrstuvwxyz0123456789_.-''"

definition hex_digit :: "nat \<Rightarrow> char" where
  "hex_digit d = ''0123456789ABCDEF'' ! d"

definition quote_char :: "char \<Rightarrow> string" where
  "quote_char c =
     (if always_safe c then [c]
      else if c = CHR '' '' then ''+''
      else [CHR ''%'', hex_digit (of_char c div 16), hex_digit (of_char c mod 16)])"

definition quote_plus :: "string \<Rightarrow> string" where
  "quote_plus s = concat (map quote_char s)"

fun join :: "string \<Rightarrow> string list \<Rightarrow> string" where
  "join sep [] = []"
| "join sep [x] = x"
| "join sep (x # y # xs) = x @ sep @ join sep (y # xs)"

text \<open>
  \<^verbatim>\<open>urlencode(query)\<close> on a dict: the items in insertion order (the keyword order of
  \<^verbatim>\<open>dict(ra=..., dec=..., ...)\<close>), each as \<^verbatim>\<open>quote_plus(k) + '=' + quote_plus(str(v))\<close>,
  joined by \<^verbatim>\<open>&\<close>.
\<close>

definition encode_item :: "(rat \<Rightarrow> string) \<Rightarrow> string \<times> pyval \<Rightarrow> string" where
  "encode_item fs kv = quote_plus (fst kv) @ ''='' @ quote_plus (py_str fs (snd kv))"

definition urlencode :: "(rat \<Rightarrow> string) \<Rightarrow> (string \<times> pyval) list \<Rightarrow> string" where
  "urlencode fs query = join ''&'' (map (encode_item fs) query)"

subsection \<open>The text of an angle\<close>

text \<open>The last \<open>k\<close> decimal digits of a number, with leading zeros.\<close>

fun digits_fixed :: "nat \<Rightarrow> nat \<Rightarrow> string" where
  "digits_fixed 0 n = []"
| "digits_fixed (Suc k) n = digits_fixed k (n div 10) @ [digit_char (n mod 10)]"

definition strip_zeros :: "string \<Rightarrow> string" where
  "strip_zeros s = rev (dropWhile (\<lambda>c. c = CHR ''0'') (rev s))"

text \<open>
  Modelled from the spec: \<^verbatim>\<open>str(angle)\<close> of the external library, for an angle in degrees,
  which is what \<^verbatim>\<open>print\<close> writes for \<^verbatim>\<open>hcg7_center.ra\<close> and \<^verbatim>\<open>hcg7_center.dec\<close>. The spec
  says that the text is a sexagesimal representation of the angle, to within a tolerance
  (\<^verbatim>\<open>~0h39m15.9s\<close>). The text has a limited number \<open>p\<close> of decimals in its seconds, a
  setting of the library: the angle is rounded to that last place (\<open>round_units\<close>, in
  units of \<open>10^-p\<close> arcsec, half a unit going up), then split into degrees, two-digit
  minutes and two-digit seconds, and the decimals of the seconds lose their final zeros,
  as in \<^verbatim>\<open>9d48m58.5s\<close>. \<open>dms_rounded\<close> is the angle, in degrees, after that rounding.
\<close>

definition round_units :: "nat \<Rightarrow> rat \<Rightarrow> nat" where
  "round_units p x = nat (round (\<bar>x\<bar> * 3600 * 10 ^ p))"

definition seconds_text :: "nat \<Rightarrow> nat \<Rightarrow> string" where
  "seconds_text p su =
     (let fr = strip_zeros (digits_fixed p (su mod 10 ^ p))
      in digits_fixed 2 (su div 10 ^ p) @ (if fr = [] then [] else ''.'' @ fr))"

definition dms_text :: "nat \<Rightarrow> rat \<Rightarrow> string" where
  "dms_text p x =
     (let n = round_units p x
      in (if x < 0 then ''-'' else []) @
         str_nat (n div (3600 * 10 ^ p)) @ ''d'' @
         digits_fixed 2 (n div (60 * 10 ^ p) mod 60) @ ''m'' @
         seconds_text p (n mod (60 * 10 ^ p)) @ ''s'')"


text \<open>
  What a cell hands to \<^verbatim>\<open>print\<close>: an angle object (in degrees), shown by its own
  \<^verbatim>\<open>str\<close>, or a float, shown by the float printer.
\<close>

datatype shown = ShownAngle rat | ShownFloat rat



subsection \<open>The environment and the namespace\<close>

type_synonym bytes = "char list"

text \<open>
  The answer of an HTTP server as \<^verbatim>\<open>urlretrieve\<close> sees it: the \<^verbatim>\<open>Content-Length\<close>
  header (absent, not an integer, or an integer), the bytes that arrive before the stream
  ends, and whether the stream ends by a failure of the connection.
\<close>

datatype length_header = NoLength | BadLength | Length int

record response =
  content_length :: length_header
  body :: bytes
  broken :: bool

text \<open>
  What the notebook reaches outside itself: the name-resolution service (a position in
  degrees, or no answer), the HTTP server behind \<^verbatim>\<open>urlretrieve\<close> (a response, or no
  response at all), the float printer, and two settings of the coordinates library: what
  it does with a declination out of range, and how many decimals it prints in the seconds
  of an angle.
\<close>

record env =
  sesame :: "string \<Rightarrow> (rat \<times> rat) option"
  http_get :: "string \<Rightarrow> response option"
  float_str :: "rat \<Rightarrow> string"
  out_of_range :: dec_policy
  precision :: nat

datatype request = Resolve string | HttpGet string

record notebook =
  hcg7_center :: "position option"
  im_size :: "quantity option"
  im_pixels :: "int option"
  cutoutbaseurl :: "string option"
  query_string :: "string option"
  url :: "string option"
  files :: "string \<rightharpoonup> bytes"
  requests :: "request list"
  printed :: "shown list list"

definition fresh :: "(string \<rightharpoonup> bytes) \<Rightarrow> notebook" where
  "fresh fs =
     \<lparr>hcg7_center = None, im_size = None, im_pixels = None, cutoutbaseurl = None,
      query_string = None, url = None, files = fs, requests = [], printed = []\<rparr>"


subsection \<open>The position cells\<close>

text \<open>
  Modelled from the spec: \<^verbatim>\<open>SkyCoord.from_name(name)\<close> sends the name to the resolution
  service once; an answer becomes a position in the ICRS frame, no answer raises.
\<close>

definition from_name :: "env \<Rightarrow> string \<Rightarrow> request list \<Rightarrow> (error + position) \<times> request list" where
  "from_name e name sent =
     (let sent' = sent @ [Resolve name]
      in case sesame e name of
           None \<Rightarrow> (Inl NameResolveError, sent')
         | Some (r, d) \<Rightarrow>
             (SkyCoord (out_of_range e) (times_unit r deg) (times_unit d deg) ICRS, sent'))"

text \<open>\<^verbatim>\<open>hcg7_center = SkyCoord.from_name('HCG 7')\<close>\<close>

definition resolve_cell :: "env \<Rightarrow> notebook \<Rightarrow> error option \<times> notebook" where
  "resolve_cell e s =
     (case from_name e ''HCG 7'' (requests s) of
        (Inl err, sent) \<Rightarrow> (Some err, s\<lparr>requests := sent\<rparr>)
      | (Inr p, sent) \<Rightarrow> (None, s\<lparr>hcg7_center := Some p, requests := sent\<rparr>))"

text \<open>
  The line the notebook tells the reader to run instead, without a connection:
  \<^verbatim>\<open>hcg7_center = SkyCoord(9.81625*u.deg, 0.88806*u.deg, frame='icrs')\<close>
\<close>

definition fallback_cell :: "env \<Rightarrow> notebook \<Rightarrow> error option \<times> notebook" where
  "fallback_cell e s =
     (case SkyCoord (out_of_range e) (times_unit 9.81625 deg) (times_unit 0.88806 deg) ICRS of
        Inl err \<Rightarrow> (Some err, s)
      | Inr p \<Rightarrow> (None, s\<lparr>hcg7_center := Some p\<rparr>))"

text \<open>
  \<^verbatim>\<open>print(hcg7_center.ra, hcg7_center.dec)\<close> and
  \<^verbatim>\<open>print(hcg7_center.ra.hour, hcg7_center.dec)\<close>: two lines of output.
\<close>

definition print_cell :: "notebook \<Rightarrow> error option \<times> notebook" where
  "print_cell s =
     (case hcg7_center s of
        None \<Rightarrow> (Some NameError, s)
      | Some c \<Rightarrow>
          (None, s\<lparr>printed := printed s @
                     [[ShownAngle (ra c), ShownAngle (dec c)],
                      [ShownFloat (hour (ra c)), ShownAngle (dec c)]]\<rparr>))"



text \<open>The value of the cell \<^verbatim>\<open>SkyCoord('0h39m15.9s', '0d53m17.016s', frame='icrs')\<close>.\<close>

definition sexagesimal_cell :: "env \<Rightarrow> error + position" where
  "sexagesimal_cell e = SkyCoord_str (out_of_range e) ''0h39m15.9s'' ''0d53m17.016s'' ICRS"

subsection \<open>The image cell\<close>

text \<open>
  \<^verbatim>\<open>size >= 0 and read < size\<close>, the test \<^verbatim>\<open>urlretrieve\<close> makes after the copy; without
  the header \<open>size\<close> is \<open>-1\<close>.
\<close>

fun too_short :: "length_header \<Rightarrow> nat \<Rightarrow> bool" where
  "too_short (Length sz) n \<longleftrightarrow> 0 \<le> sz \<and> int n < sz"
| "too_short NoLength n \<longleftrightarrow> False"
| "too_short BadLength n \<longleftrightarrow> False"

text \<open>
  \<^verbatim>\<open>urlretrieve(url, filename)\<close> of \<^verbatim>\<open>urllib.request\<close>, in its own order: one blocking GET
  (\<^verbatim>\<open>urlopen\<close>), which raises when there is no response, before any file is touched;
  then \<^verbatim>\<open>open(filename, 'wb')\<close>, which empties the file; then
  \<^verbatim>\<open>int(headers["Content-Length"])\<close>, which raises on a header that is not an integer;
  then the copy of the bytes that arrive, which a failing connection interrupts with the
  bytes so far already written; and, after the copy, \<^verbatim>\<open>ContentTooShortError\<close> when fewer
  bytes came than the header announced. Opening and writing the local file are taken to
  succeed.
\<close>

definition urlretrieve :: "env \<Rightarrow> string \<Rightarrow> string \<Rightarrow> notebook \<Rightarrow> error option \<times> notebook" where
  "urlretrieve e u filename s =
     (let s' = s\<lparr>requests := requests s @ [HttpGet u]\<rparr>
      in case http_get e u of
           None \<Rightarrow> (Some URLError, s')
         | Some r \<Rightarrow>
             (if content_length r = BadLength
              then (Some ValueError, s'\<lparr>files := (files s')(filename \<mapsto> [])\<rparr>)
              else
                (let s'' = s'\<lparr>files := (files s')(filename \<mapsto> body r)\<rparr>
                 in if broken r then (Some OSError, s'')
                    else if too_short (content_length r) (length (body r))
                    then (Some ContentTooShortError, s'')
                    else (None, s''))))"

text \<open>\<^verbatim>\<open>im_size.to(u.arcsec).value/im_pixels\<close>; a zero divisor has no quotient.\<close>

definition cutout_scale :: "quantity \<Rightarrow> int \<Rightarrow> error + rat" where
  "cutout_scale sz px =
     (if px = 0 then Inl ZeroDivisionError
      else Inr (qvalue (to_unit sz arcsec) / of_int px))"

text \<open>
  \<^verbatim>\<open>dict(ra=hcg7_center.ra.deg, dec=hcg7_center.dec.deg, width=im_pixels,
  height=im_pixels, scale=...)\<close>
\<close>

definition cutout_query :: "position \<Rightarrow> int \<Rightarrow> rat \<Rightarrow> (string \<times> pyval) list" where
  "cutout_query c px sc =
     [(''ra'', PyFloat (ra c)), (''dec'', PyFloat (dec c)),
      (''width'', PyInt px), (''height'', PyInt px),
      (''scale'', PyFloat sc)]"

definition sdss_cutout_url :: string where
  "sdss_cutout_url = ''http://skyservice.pha.jhu.edu/DR12/ImgCutout/getjpeg.aspx''"

definition cutout_file :: string where
  "cutout_file = ''HCG7_SDSS_cutout.jpg''"

text \<open>
  The cell, with the two literals \<open>im_size\<close> and \<open>im_pixels\<close> as arguments. The
  assignments happen in the source's order, so an exception leaves the earlier ones done.
\<close>

definition fetch_cutout :: "env \<Rightarrow> quantity \<Rightarrow> int \<Rightarrow> notebook \<Rightarrow> error option \<times> notebook" where
  "fetch_cutout e sz px s =
     (let s1 = s\<lparr>im_size := Some sz, im_pixels := Some px,
                 cutoutbaseurl := Some sdss_cutout_url\<rparr>
      in case hcg7_center s1 of
           None \<Rightarrow> (Some NameError, s1)
         | Some c \<Rightarrow>
             (case cutout_scale sz px of
                Inl err \<Rightarrow> (Some err, s1)
              | Inr sc \<Rightarrow>
                  (let q = urlencode (float_str e) (cutout_query c px sc);
                       s2 = s1\<lparr>query_string := Some q\<rparr>;
                       u = sdss_cutout_url @ ''?'' @ q;
                       s3 = s2\<lparr>url := Some u\<rparr>
                   in urlretrieve e u cutout_file s3)))"

definition cutout_cell :: "env \<Rightarrow> notebook \<Rightarrow> error option \<times> notebook" where
  "cutout_cell e s = fetch_cutout e (times_unit 12 arcmin) 1024 s"

subsection \<open>The invariant of the namespace\<close>

text \<open>
  The position bound to \<open>hcg7_center\<close>, when there is one, is in range.
\<close>

definition center_valid :: "notebook \<Rightarrow> bool" where
  "center_valid s = (case hcg7_center s of None \<Rightarrow> True | Some p \<Rightarrow> valid_position p)"

subsection \<open>Sample environments and namespaces\<close>

text \<open>
  A float printer defined on the three floats of the sample run, a network that answers
  in full, one whose image reply stops after two of its four bytes, and one that answers
  nothing, and the namespace after the position cell, before and after an earlier run of
  the image cell; and a namespace whose position has a right ascension of \<open>10^-12\<close>
  arcsec.
\<close>

definition repr3 :: "rat \<Rightarrow> string" where
  "repr3 x =
     (if x = 9.81625 then ''9.81625''
      else if x = 0.88806 then ''0.88806''
      else if x = 0.703125 then ''0.703125''
      else ''nan'')"

definition online :: env where
  "online = \<lparr>sesame = (\<lambda>n. if n = ''HCG 7'' then Some (9.81625, 0.88806) else None),
             http_get = (\<lambda>_. Some \<lparr>content_length = Length 4, body = ''JFIF'', broken = False\<rparr>),
             float_str = repr3, out_of_range = Reject, precision = 4\<rparr>"


definition offline :: env where
  "offline = \<lparr>sesame = (\<lambda>_. None), http_get = (\<lambda>_. None),
              float_str = repr3, out_of_range = Reject, precision = 4\<rparr>"

definition hcg7_literal :: position where
  "hcg7_literal = \<lparr>ra = 9.81625, dec = 0.88806, frame = ICRS\<rparr>"

definition hcg7_resolved :: notebook where
  "hcg7_resolved = (fresh Map.empty)\<lparr>hcg7_center := Some \<lparr>ra = 9.81625, dec = 0.88806, frame = ICRS\<rparr>\<rparr>"


definition hcg7_rerun :: notebook where
  "hcg7_rerun = hcg7_resolved\<lparr>url := Some ''stale'', files := [''HCG7_SDSS_cutout.jpg'' \<mapsto> ''old'']\<rparr>"

section \<open>Properties\<close>

subsection \<open>Text of the request\<close>

lemma str_int_1024: "str_int 1024 = ''1024''"
  by (simp add: str_int_def str_nat.simps digit_char_def)

lemma quote_plus_keys:
  "quote_plus ''ra'' = ''ra''" "quote_plus ''dec'' = ''dec''"
  "quote_plus ''width'' = ''width''" "quote_plus ''height'' = ''height''"
  "quote_plus ''scale'' = ''scale''" "quote_plus ''1024'' = ''1024''"
  by (simp_all add: quote_plus_def quote_char_def always_safe_def)

lemma scale_12_arcmin: "cutout_scale (times_unit 12 arcmin) 1024 = Inr 0.703125"
  by (simp add: cutout_scale_def to_unit_def times_unit_def)


lemma urlencode_cutout_query:
  "urlencode fs (cutout_query c 1024 sc) =
     ''ra='' @ quote_plus (fs (ra c)) @ ''&dec='' @ quote_plus (fs (dec c))
     @ ''&width=1024&height=1024&scale='' @ quote_plus (fs sc)"
  by (simp add: urlencode_def cutout_query_def encode_item_def quote_plus_keys str_int_1024)




lemma urlretrieve_center: "hcg7_center (snd (urlretrieve e u f s)) = hcg7_center s"
  by (simp add: urlretrieve_def Let_def split: option.splits)

lemma urlretrieve_query: "query_string (snd (urlretrieve e u f s)) = query_string s"
  by (simp add: urlretrieve_def Let_def split: option.splits)

lemma urlretrieve_pixels: "im_pixels (snd (urlretrieve e u f s)) = im_pixels s"
  by (simp add: urlretrieve_def Let_def split: option.splits)

lemma fetch_cutout_center: "hcg7_center (snd (fetch_cutout e sz px s)) = hcg7_center s"
  by (simp add: fetch_cutout_def urlretrieve_def Let_def split: option.splits sum.splits)

lemma print_cell_center: "hcg7_center (snd (print_cell s)) = hcg7_center s"
  by (simp add: print_cell_def split: option.splits)

lemma hcg7_resolved_center: "hcg7_center hcg7_resolved = Some hcg7_literal"
  by (simp add: hcg7_resolved_def hcg7_literal_def fresh_def)


lemma demo_query:
  "urlencode (float_str online) (cutout_query hcg7_literal 1024 0.703125)
     = ''ra=9.81625&dec=0.88806&width=1024&height=1024&scale=0.703125''"
  by (simp add: urlencode_cutout_query online_def hcg7_literal_def repr3_def
      quote_plus_def quote_char_def always_safe_def)

subsection \<open>Ranges and conversions\<close>

lemma wrap360_range: "0 \<le> wrap360 x \<and> wrap360 x < 360"
proof -
  have "of_int \<lfloor>x / 360\<rfloor> \<le> x / 360" and "x / 360 < of_int \<lfloor>x / 360\<rfloor> + 1"
    by linarith+
  then show ?thesis
    unfolding wrap360_def by (simp add: field_simps)
qed

lemma wrap360_id: "0 \<le> x \<Longrightarrow> x < 360 \<Longrightarrow> wrap360 x = x"
proof -
  assume "0 \<le> x" and "x < 360"
  then have "\<lfloor>x / 360\<rfloor> = 0"
    by (simp add: floor_eq_iff)
  then show ?thesis by (simp add: wrap360_def)
qed

lemma check_dec_range: "check_dec pol d = Inr d' \<Longrightarrow> - 90 \<le> d' \<and> d' \<le> 90"
  by (cases pol) (auto simp: check_dec_def split: if_splits)

lemma SkyCoord_valid: "SkyCoord pol lon lat f = Inr p \<Longrightarrow> valid_position p"
  by (auto simp: SkyCoord_def valid_position_def wrap360_range
      split: sum.splits dest: check_dec_range)

lemma SkyCoord_frame: "SkyCoord pol lon lat f = Inr p \<Longrightarrow> frame p = f"
  by (auto simp: SkyCoord_def split: sum.splits)

lemma SkyCoord_eval:
  assumes "qvalue (to_unit lon deg) = r" and "qvalue (to_unit lat deg) = d"
    and "0 \<le> r" and "r < 360" and "- 90 \<le> d" and "d \<le> 90"
  shows "SkyCoord pol lon lat f = Inr \<lparr>ra = r, dec = d, frame = f\<rparr>"
  using assms by (simp add: SkyCoord_def check_dec_def wrap360_id)

lemma SkyCoord_literal:
  "SkyCoord pol (times_unit 9.81625 deg) (times_unit 0.88806 deg) ICRS = Inr hcg7_literal"
  unfolding hcg7_literal_def
  by (rule SkyCoord_eval) (simp_all add: to_unit_def times_unit_def)

lemma dms_roundtrip: "dms_degrees (to_dms x) = x"
proof -
  have d: "of_nat (nat \<lfloor>\<bar>x\<bar>\<rfloor>) = (of_int \<lfloor>\<bar>x\<bar>\<rfloor> :: rat)"
    by simp
  have "0 \<le> (\<bar>x\<bar> - of_int \<lfloor>\<bar>x\<bar>\<rfloor>) * 60"
    by simp
  then have m: "of_nat (nat \<lfloor>(\<bar>x\<bar> - of_int \<lfloor>\<bar>x\<bar>\<rfloor>) * 60\<rfloor>)
                  = (of_int \<lfloor>(\<bar>x\<bar> - of_int \<lfloor>\<bar>x\<bar>\<rfloor>) * 60\<rfloor> :: rat)"
    by simp
  show ?thesis
    unfolding to_dms_def Let_def dms_degrees.simps d m
    by (simp add: field_simps)
qed

lemma to_dms_fields:
  assumes "to_dms x = Sexagesimal neg d m sec"
  shows "m < 60 \<and> 0 \<le> sec \<and> sec < 60"
proof -
  define fr where "fr = (\<bar>x\<bar> - of_int \<lfloor>\<bar>x\<bar>\<rfloor>) * 60"
  have "0 \<le> \<bar>x\<bar> - of_int \<lfloor>\<bar>x\<bar>\<rfloor>" and "\<bar>x\<bar> - of_int \<lfloor>\<bar>x\<bar>\<rfloor> < 1"
    by linarith+
  then have fr: "0 \<le> fr" "fr < 60"
    unfolding fr_def by simp_all
  from assms have m: "m = nat \<lfloor>fr\<rfloor>" and sec: "sec = (fr - of_int \<lfloor>fr\<rfloor>) * 60"
    by (simp_all add: to_dms_def Let_def fr_def)
  from fr have "\<lfloor>fr\<rfloor> < 60"
    by (simp add: floor_less_iff)
  then have fl: "nat \<lfloor>fr\<rfloor> < 60"
    by linarith
  have "0 \<le> fr - of_int \<lfloor>fr\<rfloor>" and "fr - of_int \<lfloor>fr\<rfloor> < 1"
    by linarith+
  then have "0 \<le> sec" and "sec < 60"
    unfolding sec by simp_all
  with m fl show ?thesis by blast
qed

lemma parse_hcg7_ra:
  "parse_sexagesimal ''0h39m15.9s'' = Inr (times_unit ((39 * 60 + 15.9) / 3600) hourangle)"
  by (simp add: parse_sexagesimal_def split_at_def parse_decimal_def is_digit_def
      nat_of_digits_def digit_val_def times_unit_def)

lemma parse_hcg7_dec:
  "parse_sexagesimal ''0d53m17.016s'' = Inr (times_unit ((53 * 60 + 17.016) / 3600) deg)"
  by (simp add: parse_sexagesimal_def split_at_def parse_decimal_def is_digit_def
      nat_of_digits_def digit_val_def times_unit_def)

lemma sexagesimal_cell_literal: "sexagesimal_cell e = Inr hcg7_literal"
proof -
  have "sexagesimal_cell e =
          SkyCoord (out_of_range e) (times_unit ((39 * 60 + 15.9) / 3600) hourangle)
            (times_unit ((53 * 60 + 17.016) / 3600) deg) ICRS"
    unfolding sexagesimal_cell_def SkyCoord_str_def parse_hcg7_ra parse_hcg7_dec by simp
  also have "\<dots> = Inr hcg7_literal"
    unfolding hcg7_literal_def
    by (rule SkyCoord_eval) (simp_all add: to_unit_def times_unit_def)
  finally show ?thesis .
qed

lemma SkyCoord_str_literal:
  "SkyCoord_str pol ''0h39m15.9s'' ''0d53m17.016s'' ICRS = Inr hcg7_literal"
  using sexagesimal_cell_literal [of "\<lparr>sesame = (\<lambda>_. None), http_get = (\<lambda>_. None),
      float_str = repr3, out_of_range = pol, precision = 4\<rparr>"]
  by (simp add: sexagesimal_cell_def)

lemma SkyCoord_str_valid: "SkyCoord_str pol a b f = Inr p \<Longrightarrow> valid_position p"
  by (auto simp: SkyCoord_str_def split: sum.splits dest: SkyCoord_valid)

subsection \<open>Text of an angle\<close>

lemma below_ten:
  assumes "(r::nat) < 10"
  shows "r = 0 \<or> r = 1 \<or> r = 2 \<or> r = 3 \<or> r = 4 \<or> r = 5 \<or> r = 6 \<or> r = 7 \<or> r = 8 \<or> r = 9"
  using assms by arith



lemma digit_char_zero_iff: "r < 10 \<Longrightarrow> digit_char r = CHR ''0'' \<longleftrightarrow> r = 0"
  by (drule below_ten) (auto simp: digit_char_def)



























lemma digits_fixed_numeral:
  "digits_fixed (numeral k) n = digits_fixed (pred_numeral k) (n div 10) @ [digit_char (n mod 10)]"
  unfolding numeral_eq_Suc [of k] by (rule digits_fixed.simps)

lemma digit_char_numerals:
  "digit_char 0 = CHR ''0''" "digit_char 1 = CHR ''1''" "digit_char 2 = CHR ''2''"
  "digit_char 3 = CHR ''3''" "digit_char 4 = CHR ''4''" "digit_char 5 = CHR ''5''"
  "digit_char 6 = CHR ''6''" "digit_char 7 = CHR ''7''" "digit_char 8 = CHR ''8''"
  "digit_char 9 = CHR ''9''" "digit_char (Suc 0) = CHR ''1''"
  by (simp_all add: digit_char_def)





lemma dms_text_zero: "dms_text 4 0 = ''0d00m00s''"
  by (simp add: dms_text_def round_units_def seconds_text_def strip_zeros_def str_nat.simps
      digits_fixed_numeral digit_char_numerals)







subsection \<open>Name resolution\<close>

lemma from_name_valid: "fst (from_name e n sent) = Inr p \<Longrightarrow> valid_position p"
  by (auto simp: from_name_def Let_def split: option.splits dest: SkyCoord_valid)

lemma from_name_frame: "fst (from_name e n sent) = Inr p \<Longrightarrow> frame p = ICRS"
  by (auto simp: from_name_def Let_def split: option.splits dest: SkyCoord_frame)

lemma from_name_sent: "snd (from_name e n sent) = sent @ [Resolve n]"
  by (simp add: from_name_def Let_def split: option.splits)

lemma from_name_online: "fst (from_name online ''HCG 7'' []) = Inr hcg7_literal"
proof -
  have "from_name online ''HCG 7'' []
          = (SkyCoord Reject (times_unit 9.81625 deg) (times_unit 0.88806 deg) ICRS,
             [Resolve ''HCG 7''])"
    by (simp add: from_name_def online_def)
  then show ?thesis
    unfolding SkyCoord_literal by simp
qed

lemma offline_no_answer: "sesame offline n = None"
  by (simp add: offline_def)

lemma resolve_cell_online:
  "resolve_cell online (fresh Map.empty)
     = (None, (fresh Map.empty)\<lparr>hcg7_center := Some hcg7_literal,
                                requests := [Resolve ''HCG 7'']\<rparr>)"
proof -
  have "from_name online ''HCG 7'' [] = (Inr hcg7_literal, [Resolve ''HCG 7''])"
    using from_name_online from_name_sent [of online "''HCG 7''" "[]"]
    by (cases "from_name online ''HCG 7'' []") simp
  then show ?thesis
    by (simp add: resolve_cell_def fresh_def)
qed

lemma resolve_cell_valid: "center_valid s \<Longrightarrow> center_valid (snd (resolve_cell e s))"
proof -
  assume v: "center_valid s"
  obtain r sent where fn: "from_name e ''HCG 7'' (requests s) = (r, sent)"
    by (cases "from_name e ''HCG 7'' (requests s)")
  show ?thesis
  proof (cases r)
    case (Inl err)
    with fn v show ?thesis by (simp add: resolve_cell_def center_valid_def)
  next
    case (Inr p)
    with fn have "fst (from_name e ''HCG 7'' (requests s)) = Inr p" by simp
    then have "valid_position p" by (rule from_name_valid)
    with fn Inr show ?thesis by (simp add: resolve_cell_def center_valid_def)
  qed
qed

lemma fallback_cell_valid: "center_valid s \<Longrightarrow> center_valid (snd (fallback_cell e s))"
  by (auto simp: fallback_cell_def center_valid_def split: sum.splits dest: SkyCoord_valid)

lemma fallback_cell_literal: "fallback_cell e s = (None, s\<lparr>hcg7_center := Some hcg7_literal\<rparr>)"
  unfolding fallback_cell_def SkyCoord_literal by simp

lemma fresh_center_valid: "center_valid (fresh Map.empty)"
  by (simp add: center_valid_def fresh_def)

section \<open>The claims\<close>

text \<open>
  Claim C1. The scale of the cutout is the field of view in arcseconds divided by the
  pixel width: for a field in any unit and a non-zero width it is the field's value times
  the arcseconds per unit, over the width; a field of \<open>a\<close> arcmin is \<open>60 a\<close> arcsec;
  for 12 arcmin and 1024 pixels it is \<open>720/1024 = 0.703125\<close>, and that is the scale
  the image cell puts in its query.
\<close>

theorem scale_is_field_in_arcsec_over_width:
  "(px \<noteq> 0 \<longrightarrow> cutout_scale sz px = Inr (qvalue sz * arcsec_per (qunit sz) / of_int px))
   \<and> qvalue (to_unit (times_unit a arcmin) arcsec) = a * 60
   \<and> cutout_scale (times_unit 12 arcmin) 1024 = Inr (720 / 1024)
   \<and> (720 / 1024 :: rat) = 0.703125
   \<and> (hcg7_center s = Some c \<longrightarrow>
        query_string (snd (cutout_cell e s))
          = Some (urlencode (float_str e) (cutout_query c 1024 0.703125)))"
proof -
  have "hcg7_center s = Some c \<Longrightarrow>
        query_string (snd (cutout_cell e s))
          = Some (urlencode (float_str e) (cutout_query c 1024 0.703125))"
    by (simp add: cutout_cell_def fetch_cutout_def scale_12_arcmin urlretrieve_def Let_def
        split: option.splits)
  then show ?thesis
    by (simp add: cutout_scale_def to_unit_def times_unit_def)
qed

theorem scale_is_field_in_arcsec_over_width_witness:
  "(1024::int) \<noteq> 0
   \<and> cutout_scale (times_unit 12 arcmin) 1024 = Inr (12 * 60 / 1024)
   \<and> hcg7_center hcg7_resolved = Some hcg7_literal
   \<and> query_string (snd (cutout_cell online hcg7_resolved))
       = Some ''ra=9.81625&dec=0.88806&width=1024&height=1024&scale=0.703125''"
proof -
  note t = scale_is_field_in_arcsec_over_width
    [where px = 1024 and sz = "times_unit 12 arcmin" and a = 12 and s = hcg7_resolved
       and c = hcg7_literal and e = online]
  from t have "cutout_scale (times_unit 12 arcmin) 1024 = Inr (12 * 60 / 1024)"
    by (simp add: times_unit_def)
  moreover from t hcg7_resolved_center
  have "query_string (snd (cutout_cell online hcg7_resolved))
          = Some (urlencode (float_str online) (cutout_query hcg7_literal 1024 0.703125))"
    by blast
  ultimately show ?thesis
    unfolding demo_query using hcg7_resolved_center by simp
qed



text \<open>
  Claim C3. The right ascension 9.81625 degrees and the hour angle \<^verbatim>\<open>0h39m15.9s\<close> are
  the same angle: the string reads as \<open>(39 * 60 + 15.9) / 3600\<close> hours, which is
  9.81625 degrees at 15 degrees per hour, and 9.81625 degrees in hours shows as 0h 39m
  15.9s; hours to degrees and back is the identity in both directions. Over rationals the
  equality is exact. The sexagesimal cell of the notebook builds the very position of its
  numeric fallback line.
\<close>

theorem hcg7_hour_angle_roundtrip:
  "parse_sexagesimal ''0h39m15.9s'' = Inr (times_unit ((39 * 60 + 15.9) / 3600) hourangle)
   \<and> qvalue (to_unit (times_unit ((39 * 60 + 15.9) / 3600) hourangle) deg) = 9.81625
   \<and> hour 9.81625 = (39 * 60 + 15.9) / 3600
   \<and> to_dms (hour 9.81625) = Sexagesimal False 0 39 15.9
   \<and> qvalue (to_unit (times_unit (hour x) hourangle) deg) = x
   \<and> hour (qvalue (to_unit (times_unit h hourangle) deg)) = h
   \<and> sexagesimal_cell e = Inr \<lparr>ra = 9.81625, dec = 0.88806, frame = ICRS\<rparr>
   \<and> SkyCoord (out_of_range e) (times_unit 9.81625 deg) (times_unit 0.88806 deg) ICRS
       = sexagesimal_cell e"
proof -
  have 1: "qvalue (to_unit (times_unit ((39 * 60 + 15.9) / 3600) hourangle) deg) = 9.81625"
    by (simp add: to_unit_def times_unit_def)
  have 2: "hour 9.81625 = (39 * 60 + 15.9) / 3600"
    by (simp add: hour_def to_unit_def times_unit_def)
  have "\<lfloor>7853 / 12000 :: rat\<rfloor> = 0" and "\<lfloor>7853 / 200 :: rat\<rfloor> = 39"
    by (simp_all add: floor_eq_iff)
  then have 3: "to_dms (hour 9.81625) = Sexagesimal False 0 39 15.9"
    by (simp add: hour_def to_unit_def times_unit_def to_dms_def)
  have 4: "qvalue (to_unit (times_unit (hour x) hourangle) deg) = x"
    and 5: "hour (qvalue (to_unit (times_unit h hourangle) deg)) = h"
    by (simp_all add: hour_def to_unit_def times_unit_def)
  have 6: "sexagesimal_cell e = Inr \<lparr>ra = 9.81625, dec = 0.88806, frame = ICRS\<rparr>"
    unfolding sexagesimal_cell_literal hcg7_literal_def ..
  have 7: "SkyCoord (out_of_range e) (times_unit 9.81625 deg) (times_unit 0.88806 deg) ICRS
       = sexagesimal_cell e"
    unfolding sexagesimal_cell_literal SkyCoord_literal ..
  from parse_hcg7_ra 1 2 3 4 5 6 7 show ?thesis by blast
qed

theorem hcg7_hour_angle_roundtrip_witness:
  "parse_sexagesimal ''0h39m15.9s'' = Inr \<lparr>qvalue = 7853 / 12000, qunit = hourangle\<rparr>
   \<and> hour (7853 / 800) = 7853 / 12000
   \<and> qvalue (to_unit (times_unit (hour 100) hourangle) deg) = 100
   \<and> sexagesimal_cell online = Inr hcg7_literal"
proof -
  note t = hcg7_hour_angle_roundtrip [where x = 100 and h = 1 and e = online]
  from t have "parse_sexagesimal ''0h39m15.9s''
                 = Inr (times_unit ((39 * 60 + 15.9) / 3600) hourangle)"
    by blast
  then have 1: "parse_sexagesimal ''0h39m15.9s''
                  = Inr \<lparr>qvalue = 7853 / 12000, qunit = hourangle\<rparr>"
    by (simp add: times_unit_def)
  from t have "hour 9.81625 = (39 * 60 + 15.9) / 3600"
    by blast
  then have 2: "hour (7853 / 800) = 7853 / 12000"
    by simp
  from t have 3: "qvalue (to_unit (times_unit (hour 100) hourangle) deg) = 100"
    by blast
  from t have "sexagesimal_cell online = Inr \<lparr>ra = 9.81625, dec = 0.88806, frame = ICRS\<rparr>"
    by blast
  then have 4: "sexagesimal_cell online = Inr hcg7_literal"
    unfolding hcg7_literal_def .
  from 1 2 3 4 show ?thesis by blast
qed

text \<open>
  Claim C4. Every constructed position has its right ascension in \<open>[0, 360)\<close> and its
  declination in \<open>[-90, 90]\<close> degrees, whether it comes from two quantities, from two
  sexagesimal strings or from name resolution; and every cell keeps the position bound to
  \<open>hcg7_center\<close> in range.
\<close>

theorem constructed_position_in_range:
  "(SkyCoord pol lon lat f = Inr p \<longrightarrow> valid_position p)
   \<and> (SkyCoord_str pol lon_s lat_s f = Inr p \<longrightarrow> valid_position p)
   \<and> (fst (from_name e n sent) = Inr p \<longrightarrow> valid_position p)
   \<and> (center_valid s \<longrightarrow>
        center_valid (snd (resolve_cell e s)) \<and> center_valid (snd (fallback_cell e s))
        \<and> center_valid (snd (print_cell s)) \<and> center_valid (snd (cutout_cell e s)))"
  using SkyCoord_valid [of pol lon lat f p] SkyCoord_str_valid [of pol lon_s lat_s f p]
    from_name_valid [of e n sent p] resolve_cell_valid [of s e] fallback_cell_valid [of s e]
  by (simp add: center_valid_def print_cell_center fetch_cutout_center cutout_cell_def)

theorem constructed_position_in_range_witness:
  "SkyCoord Reject (times_unit 9.81625 deg) (times_unit 0.88806 deg) ICRS = Inr hcg7_literal
   \<and> SkyCoord_str Reject ''0h39m15.9s'' ''0d53m17.016s'' ICRS = Inr hcg7_literal
   \<and> fst (from_name online ''HCG 7'' []) = Inr hcg7_literal
   \<and> valid_position hcg7_literal
   \<and> center_valid (fresh Map.empty)
   \<and> center_valid (snd (resolve_cell online (fresh Map.empty)))
   \<and> center_valid (snd (fallback_cell online (fresh Map.empty)))"
proof -
  note t = constructed_position_in_range
    [where pol = Reject and lon = "times_unit 9.81625 deg" and lat = "times_unit 0.88806 deg"
       and f = ICRS and p = hcg7_literal and lon_s = "''0h39m15.9s''"
       and lat_s = "''0d53m17.016s''" and e = online and n = "''HCG 7''" and sent = "[]"
       and s = "fresh Map.empty"]
  from t SkyCoord_literal [of Reject] have "valid_position hcg7_literal"
    by blast
  moreover from t fresh_center_valid
  have "center_valid (snd (resolve_cell online (fresh Map.empty)))
        \<and> center_valid (snd (fallback_cell online (fresh Map.empty)))"
    by blast
  ultimately show ?thesis
    using SkyCoord_literal [of Reject] SkyCoord_str_literal [of Reject] from_name_online
      fresh_center_valid
    by blast
qed

text \<open>
  Claim C5. A successful name resolution gives a position in the ICRS frame. Resolution
  sends exactly one request, whether it succeeds or fails; when the service gives no
  answer the cell raises and leaves the namespace as it was, apart from the request sent.
  The fallback is the cell that binds the literal position (9.81625, 0.88806) in ICRS,
  without any request.
\<close>

theorem resolve_once_then_literal_fallback:
  "(fst (from_name e n sent) = Inr p \<longrightarrow> frame p = ICRS)
   \<and> snd (from_name e n sent) = sent @ [Resolve n]
   \<and> (sesame e n = None \<longrightarrow> fst (from_name e n sent) = Inl NameResolveError)
   \<and> requests (snd (resolve_cell e s)) = requests s @ [Resolve ''HCG 7'']
   \<and> (sesame e ''HCG 7'' = None \<longrightarrow>
        resolve_cell e s
          = (Some NameResolveError, s\<lparr>requests := requests s @ [Resolve ''HCG 7'']\<rparr>))
   \<and> (fst (resolve_cell e s) = None \<longrightarrow>
        (\<exists>q. hcg7_center (snd (resolve_cell e s)) = Some q \<and> frame q = ICRS))
   \<and> fallback_cell e s
        = (None, s\<lparr>hcg7_center := Some \<lparr>ra = 9.81625, dec = 0.88806, frame = ICRS\<rparr>\<rparr>)"
proof -
  have 1: "fst (from_name e n sent) = Inr p \<longrightarrow> frame p = ICRS"
    using from_name_frame by blast
  have 3: "sesame e n = None \<longrightarrow> fst (from_name e n sent) = Inl NameResolveError"
    by (simp add: from_name_def)
  obtain r sent' where fn: "from_name e ''HCG 7'' (requests s) = (r, sent')"
    by (cases "from_name e ''HCG 7'' (requests s)")
  with from_name_sent [of e "''HCG 7''" "requests s"]
  have sent': "sent' = requests s @ [Resolve ''HCG 7'']" by simp
  have 4: "requests (snd (resolve_cell e s)) = requests s @ [Resolve ''HCG 7'']"
    using fn sent' by (cases r) (simp_all add: resolve_cell_def)
  have 5: "sesame e ''HCG 7'' = None \<longrightarrow>
        resolve_cell e s
          = (Some NameResolveError, s\<lparr>requests := requests s @ [Resolve ''HCG 7'']\<rparr>)"
    by (simp add: resolve_cell_def from_name_def)
  have 6: "fst (resolve_cell e s) = None \<longrightarrow>
        (\<exists>q. hcg7_center (snd (resolve_cell e s)) = Some q \<and> frame q = ICRS)"
  proof (cases r)
    case (Inl err)
    with fn show ?thesis by (simp add: resolve_cell_def)
  next
    case (Inr q)
    with fn have "fst (from_name e ''HCG 7'' (requests s)) = Inr q" by simp
    then have "frame q = ICRS" by (rule from_name_frame)
    with fn Inr show ?thesis by (simp add: resolve_cell_def)
  qed
  have 7: "fallback_cell e s
        = (None, s\<lparr>hcg7_center := Some \<lparr>ra = 9.81625, dec = 0.88806, frame = ICRS\<rparr>\<rparr>)"
    unfolding fallback_cell_literal hcg7_literal_def ..
  from 1 from_name_sent [of e n sent] 3 4 5 6 7 show ?thesis by blast
qed

theorem resolve_once_then_literal_fallback_witness:
  "fst (from_name online ''HCG 7'' []) = Inr hcg7_literal \<and> frame hcg7_literal = ICRS
   \<and> sesame offline ''HCG 7'' = None
   \<and> fst (from_name offline ''HCG 7'' []) = Inl NameResolveError
   \<and> resolve_cell offline (fresh Map.empty)
       = (Some NameResolveError, (fresh Map.empty)\<lparr>requests := [Resolve ''HCG 7'']\<rparr>)
   \<and> fst (resolve_cell online (fresh Map.empty)) = None
   \<and> map_option frame (hcg7_center (snd (resolve_cell online (fresh Map.empty)))) = Some ICRS
   \<and> fallback_cell offline (snd (resolve_cell offline (fresh Map.empty)))
       = (None, (fresh Map.empty)\<lparr>requests := [Resolve ''HCG 7''],
                                   hcg7_center := Some hcg7_literal\<rparr>)"
proof -
  note on = resolve_once_then_literal_fallback
    [where e = online and n = "''HCG 7''" and sent = "[]" and p = hcg7_literal
       and s = "fresh Map.empty"]
  note off = resolve_once_then_literal_fallback
    [where e = offline and n = "''HCG 7''" and sent = "[]" and p = hcg7_literal
       and s = "fresh Map.empty"]
  have ok: "fst (resolve_cell online (fresh Map.empty)) = None"
    by (simp add: resolve_cell_online)
  from on from_name_online have 1: "frame hcg7_literal = ICRS"
    by blast
  note no = offline_no_answer [of "''HCG 7''"]
  from off no have 2: "fst (from_name offline ''HCG 7'' []) = Inl NameResolveError"
    by blast
  from off no
  have 3: "resolve_cell offline (fresh Map.empty)
       = (Some NameResolveError,
          (fresh Map.empty)\<lparr>requests := requests (fresh Map.empty) @ [Resolve ''HCG 7'']\<rparr>)"
    by blast
  from on ok obtain q where "hcg7_center (snd (resolve_cell online (fresh Map.empty))) = Some q"
    and "frame q = ICRS"
    by blast
  then have 4: "map_option frame (hcg7_center (snd (resolve_cell online (fresh Map.empty))))
                  = Some ICRS"
    by simp
  have 5: "fallback_cell offline (snd (resolve_cell offline (fresh Map.empty)))
       = (None, (fresh Map.empty)\<lparr>requests := [Resolve ''HCG 7''],
                                   hcg7_center := Some hcg7_literal\<rparr>)"
    unfolding 3 fallback_cell_literal by (simp add: fresh_def)
  from 3 have r3: "resolve_cell offline (fresh Map.empty)
       = (Some NameResolveError, (fresh Map.empty)\<lparr>requests := [Resolve ''HCG 7'']\<rparr>)"
    by (simp add: fresh_def)
  from from_name_online 1 no 2 r3 ok 4 5 show ?thesis
    by blast
qed




text \<open>
  Claim C7. A declination outside \<open>[-90, 90]\<close> degrees is rejected or clamped: under
  the rejecting policy the construction raises \<open>ValueError\<close>, under the clamping policy
  it yields the nearest bound, and under either policy no constructed position has a
  declination out of range.
\<close>

theorem declination_out_of_range:
  assumes "qvalue (to_unit lat deg) < - 90 \<or> 90 < qvalue (to_unit lat deg)"
  shows "SkyCoord Reject lon lat f = Inl ValueError
         \<and> (\<exists>p. SkyCoord Clamp lon lat f = Inr p
                \<and> dec p = (if 90 < qvalue (to_unit lat deg) then 90 else - 90))
         \<and> (\<forall>pol p. SkyCoord pol lon lat f = Inr p \<longrightarrow> - 90 \<le> dec p \<and> dec p \<le> 90)"
proof -
  have "\<forall>pol p. SkyCoord pol lon lat f = Inr p \<longrightarrow> - 90 \<le> dec p \<and> dec p \<le> 90"
    using SkyCoord_valid by (auto simp: valid_position_def)
  with assms show ?thesis
    by (auto simp: SkyCoord_def check_dec_def)
qed

theorem declination_out_of_range_witness:
  "90 < qvalue (to_unit (times_unit 91 deg) deg)
   \<and> SkyCoord Reject (times_unit 10 deg) (times_unit 91 deg) ICRS = Inl ValueError
   \<and> map_sum id dec (SkyCoord Clamp (times_unit 10 deg) (times_unit 91 deg) ICRS) = Inr 90"
proof -
  have far: "90 < qvalue (to_unit (times_unit 91 deg) deg)"
    by (simp add: to_unit_def times_unit_def)
  then have "qvalue (to_unit (times_unit 91 deg) deg) < - 90
             \<or> 90 < qvalue (to_unit (times_unit 91 deg) deg)"
    by simp
  note t = declination_out_of_range [OF this, of "times_unit 10 deg" ICRS]
  from t have 1: "SkyCoord Reject (times_unit 10 deg) (times_unit 91 deg) ICRS = Inl ValueError"
    by blast
  from t far obtain p where "SkyCoord Clamp (times_unit 10 deg) (times_unit 91 deg) ICRS = Inr p"
    and "dec p = 90"
    by auto
  then have 2: "map_sum id dec (SkyCoord Clamp (times_unit 10 deg) (times_unit 91 deg) ICRS)
                  = Inr 90"
    by simp
  from far 1 2 show ?thesis by blast
qed

text \<open>
  Claim C8. Using a position does not change it: after the print cell, after the image
  cell (for any field and width, whether the request succeeds or fails) and after
  \<open>urlretrieve\<close>, \<open>hcg7_center\<close> is bound to the same right ascension, declination
  and frame as before.
\<close>

theorem position_unchanged_by_use:
  "hcg7_center (snd (print_cell s)) = hcg7_center s
   \<and> hcg7_center (snd (cutout_cell e s)) = hcg7_center s
   \<and> hcg7_center (snd (fetch_cutout e sz px s)) = hcg7_center s
   \<and> hcg7_center (snd (urlretrieve e u f s)) = hcg7_center s"
  by (simp add: print_cell_center fetch_cutout_center cutout_cell_def urlretrieve_def Let_def
      split: option.splits)

theorem position_unchanged_by_use_witness:
  "hcg7_center (snd (print_cell hcg7_resolved)) = Some hcg7_literal
   \<and> hcg7_center (snd (cutout_cell online hcg7_resolved)) = Some hcg7_literal
   \<and> hcg7_center (snd (cutout_cell offline hcg7_resolved)) = Some hcg7_literal"
proof -
  note on = position_unchanged_by_use [where s = hcg7_resolved and e = online]
  note off = position_unchanged_by_use [where s = hcg7_resolved and e = offline]
  from on have "hcg7_center (snd (print_cell hcg7_resolved)) = hcg7_center hcg7_resolved"
    and "hcg7_center (snd (cutout_cell online hcg7_resolved)) = hcg7_center hcg7_resolved"
    by blast+
  moreover from off
  have "hcg7_center (snd (cutout_cell offline hcg7_resolved)) = hcg7_center hcg7_resolved"
    by blast
  ultimately show ?thesis
    unfolding hcg7_resolved_center by blast
qed

text \<open>
  Claim C9. The cutout request is square: \<open>width\<close> and \<open>height\<close> are the same
  pixel count, 1024 in the notebook's cell, and the scale times that count is the field
  of view in arcseconds, so the scale is fixed by the field and the width.
\<close>

theorem cutout_is_square:
  "map_of (cutout_query c px sc) ''width'' = Some (PyInt px)
   \<and> map_of (cutout_query c px sc) ''height'' = Some (PyInt px)
   \<and> (cutout_scale sz px = Inr sc \<longrightarrow> sc * of_int px = qvalue (to_unit sz arcsec))
   \<and> im_pixels (snd (cutout_cell e s)) = Some 1024
   \<and> (hcg7_center s = Some c \<longrightarrow>
        query_string (snd (cutout_cell e s)) =
          Some (''ra='' @ quote_plus (float_str e (ra c)) @
                ''&dec='' @ quote_plus (float_str e (dec c)) @
                ''&width=1024&height=1024&scale='' @ quote_plus (float_str e (720 / 1024))))"
proof -
  have 1: "map_of (cutout_query c px sc) ''width'' = Some (PyInt px)"
    and 2: "map_of (cutout_query c px sc) ''height'' = Some (PyInt px)"
    by (simp_all add: cutout_query_def)
  have 3: "cutout_scale sz px = Inr sc \<longrightarrow> sc * of_int px = qvalue (to_unit sz arcsec)"
    by (auto simp: cutout_scale_def split: if_splits)
  have 4: "im_pixels (snd (cutout_cell e s)) = Some 1024"
    by (simp add: cutout_cell_def fetch_cutout_def urlretrieve_def Let_def
        split: option.splits sum.splits)
  have 5: "hcg7_center s = Some c \<longrightarrow>
        query_string (snd (cutout_cell e s)) =
          Some (''ra='' @ quote_plus (float_str e (ra c)) @
                ''&dec='' @ quote_plus (float_str e (dec c)) @
                ''&width=1024&height=1024&scale='' @ quote_plus (float_str e (720 / 1024)))"
    by (simp add: cutout_cell_def fetch_cutout_def scale_12_arcmin urlretrieve_def Let_def
        urlencode_cutout_query split: option.splits)
  from 1 2 3 4 5 show ?thesis by blast
qed

theorem cutout_is_square_witness:
  "cutout_scale (times_unit 12 arcmin) 1024 = Inr 0.703125
   \<and> (0.703125::rat) * of_int 1024 = 720
   \<and> hcg7_center hcg7_resolved = Some hcg7_literal
   \<and> query_string (snd (cutout_cell online hcg7_resolved))
       = Some ''ra=9.81625&dec=0.88806&width=1024&height=1024&scale=0.703125''"
proof -
  note t = cutout_is_square
    [where sz = "times_unit 12 arcmin" and px = 1024 and sc = "0.703125"
       and s = hcg7_resolved and c = hcg7_literal and e = online]
  from t scale_12_arcmin
  have "(0.703125::rat) * of_int 1024 = qvalue (to_unit (times_unit 12 arcmin) arcsec)"
    by blast
  then have 1: "(0.703125::rat) * of_int 1024 = 720"
    by (simp add: to_unit_def times_unit_def)
  from t hcg7_resolved_center
  have "query_string (snd (cutout_cell online hcg7_resolved)) =
          Some (''ra='' @ quote_plus (float_str online (ra hcg7_literal)) @
                ''&dec='' @ quote_plus (float_str online (dec hcg7_literal)) @
                ''&width=1024&height=1024&scale='' @ quote_plus (float_str online (720 / 1024)))"
    by blast
  then have 2: "query_string (snd (cutout_cell online hcg7_resolved))
       = Some ''ra=9.81625&dec=0.88806&width=1024&height=1024&scale=0.703125''"
    by (simp add: online_def hcg7_literal_def repr3_def quote_plus_def quote_char_def
        always_safe_def)
  from scale_12_arcmin 1 hcg7_resolved_center 2 show ?thesis by blast
qed

text \<open>
  Claim C10. The request URL is determined by the position, the field of view and the
  pixel width: two runs of the image fetch that agree on them (and on the float printer)
  build the same URL and send the same request, whatever the files, the earlier values of
  the cell's variables and the answers of the network.
\<close>

theorem cutout_url_deterministic:
  assumes "hcg7_center s1 = Some c" and "hcg7_center s2 = Some c"
    and "float_str e1 = float_str e2" and "px \<noteq> 0"
  shows "url (snd (fetch_cutout e1 sz px s1)) = url (snd (fetch_cutout e2 sz px s2))
         \<and> url (snd (fetch_cutout e1 sz px s1)) \<noteq> None
         \<and> last (requests (snd (fetch_cutout e1 sz px s1)))
             = last (requests (snd (fetch_cutout e2 sz px s2)))"
  using assms
  by (simp add: fetch_cutout_def cutout_scale_def urlretrieve_def Let_def split: option.splits)

theorem cutout_url_deterministic_witness:
  "hcg7_center hcg7_resolved = Some hcg7_literal
   \<and> hcg7_center hcg7_rerun = Some hcg7_literal
   \<and> float_str online = float_str offline
   \<and> (1024::int) \<noteq> 0
   \<and> url hcg7_resolved \<noteq> url hcg7_rerun
   \<and> url (snd (fetch_cutout online (times_unit 12 arcmin) 1024 hcg7_resolved))
       = url (snd (fetch_cutout offline (times_unit 12 arcmin) 1024 hcg7_rerun))"
proof -
  have c2: "hcg7_center hcg7_rerun = Some hcg7_literal"
    by (simp add: hcg7_rerun_def hcg7_resolved_center)
  have fs: "float_str online = float_str offline"
    by (simp add: online_def offline_def)
  have px: "(1024::int) \<noteq> 0"
    by simp
  have stale: "url hcg7_resolved \<noteq> url hcg7_rerun"
    by (simp add: hcg7_rerun_def hcg7_resolved_def fresh_def)
  note t = cutout_url_deterministic [OF hcg7_resolved_center c2 fs px,
      of "times_unit 12 arcmin"]
  from t have "url (snd (fetch_cutout online (times_unit 12 arcmin) 1024 hcg7_resolved))
       = url (snd (fetch_cutout offline (times_unit 12 arcmin) 1024 hcg7_rerun))"
    by blast
  with hcg7_resolved_center c2 fs px stale show ?thesis
    by blast
qed

end
